theory Spec2Isabelle
  imports Complex_Main "HOL-Library.Log_Nat"
begin

section \<open>Python numbers\<close>

text \<open>
  The amounts of \<^verbatim>\<open>cm_env.py\<close> are Python floats (\<^verbatim>\<open>amount: float\<close>), that is IEEE-754
  binary64 numbers. A finite double is a real number, so an amount is a \<open>real\<close>, and every
  arithmetic operation of the source on floats is the exact operation on reals followed by
  \<open>fl64\<close>, the rounding to the nearest double (ties to the even significand, gradual
  underflow below \<open>2 powi (- 1022)\<close>). An integer amount such as the \<open>100\<close> of the script
  is the double of the same value. Two things are outside the model: overflow to an
  infinity (results of magnitude \<open>2 ^ 1024\<close> and more) and integers too large for a double
  to hold exactly.
\<close>

definition round_half_even :: "real \<Rightarrow> int" where
  "round_half_even x =
     (let f = \<lfloor>x\<rfloor>; d = x - of_int f
      in if d < 1 / 2 then f else if 1 / 2 < d then f + 1 else if even f then f else f + 1)"

text \<open>
  The binary exponent \<open>\<lfloor>log 2 \<bar>x\<bar>\<rfloor>\<close> of a non-zero number, computed on integers
  (\<open>bitlen n\<close> is the number of binary digits of \<open>n\<close>) and held at \<open>- 1022\<close>, the
  exponent of the subnormal doubles.
\<close>

definition exponent :: "real \<Rightarrow> int" where
  "exponent x =
     (let a = \<bar>x\<bar>
      in if 1 \<le> a then bitlen \<lfloor>a\<rfloor> - 1
         else max (- bitlen (\<lceil>1 / a\<rceil> - 1)) (- 1022))"

definition fl64 :: "real \<Rightarrow> real" where
  "fl64 x =
     (if x = 0 then 0
      else let q = 2 powi (exponent x - 52)
           in of_int (round_half_even (x / q)) * q)"

text \<open>\<^verbatim>\<open>int(x)\<close> on a float truncates towards zero.\<close>

definition py_int :: "real \<Rightarrow> int" where
  "py_int x = (if 0 \<le> x then \<lfloor>x\<rfloor> else \<lceil>x\<rceil>)"

text \<open>
  The reward starts from \<^verbatim>\<open>float('inf')\<close>, so the floats of the reward computation
  carry the two infinities.
\<close>

datatype pyfloat = NegInf | Finite real | PosInf

fun float_less :: "pyfloat \<Rightarrow> pyfloat \<Rightarrow> bool" where
  "float_less (Finite x) (Finite y) = (x < y)"
| "float_less NegInf NegInf = False"
| "float_less NegInf _ = True"
| "float_less _ NegInf = False"
| "float_less PosInf _ = False"
| "float_less (Finite x) PosInf = True"

fun float_le :: "pyfloat \<Rightarrow> pyfloat \<Rightarrow> bool" where
  "float_le (Finite x) (Finite y) = (x \<le> y)"
| "float_le NegInf _ = True"
| "float_le _ PosInf = True"
| "float_le _ NegInf = False"
| "float_le PosInf _ = False"

fun float_neg :: "pyfloat \<Rightarrow> pyfloat" where
  "float_neg (Finite x) = Finite (- x)"
| "float_neg NegInf = PosInf"
| "float_neg PosInf = NegInf"

datatype error = IndexError | ZeroDivisionError | AxisError

text \<open>
  \<^verbatim>\<open>xs[i]\<close>: a negative index counts from the end, an index out of range raises
  \<^verbatim>\<open>IndexError\<close>. The result is the position read or written.
\<close>

definition py_index :: "'a list \<Rightarrow> int \<Rightarrow> error + nat" where
  "py_index xs i =
     (let n = int (length xs); j = (if i < 0 then n + i else i)
      in if 0 \<le> j \<and> j < n then Inr (nat j) else Inl IndexError)"

section \<open>SubtractiveModel and Paint\<close>

type_synonym rgb = "int \<times> int \<times> int"

record Paint =
  color :: rgb
  amount :: real

definition rgb_to_cmy :: "rgb \<Rightarrow> rgb" where
  "rgb_to_cmy rgb = (case rgb of (r, g, b) \<Rightarrow> (255 - r, 255 - g, 255 - b))"

definition cmy_to_rgb :: "rgb \<Rightarrow> rgb" where
  "cmy_to_rgb cmy = (case cmy of (c, m, y) \<Rightarrow> (255 - c, 255 - m, 255 - y))"

text \<open>
  One channel of \<^verbatim>\<open>mix_colors\<close>:
  \<^verbatim>\<open>int((cmy1[i] * paint1.amount + cmy2[i] * paint2.amount) / total_amount)\<close>,
  for a non-zero \<^verbatim>\<open>total_amount\<close>.
\<close>

definition mix_channel :: "int \<Rightarrow> real \<Rightarrow> int \<Rightarrow> real \<Rightarrow> real \<Rightarrow> int" where
  "mix_channel c1 a1 c2 a2 total_amount =
     py_int (fl64 (fl64 (fl64 (of_int c1 * a1) + fl64 (of_int c2 * a2)) / total_amount))"

text \<open>
  \<^verbatim>\<open>mix_colors\<close> returns the mixed colour (a tuple, whatever its annotation says). The
  division raises \<^verbatim>\<open>ZeroDivisionError\<close> when the total amount is zero.
\<close>

definition mix_colors :: "Paint \<Rightarrow> Paint \<Rightarrow> error + rgb" where
  "mix_colors paint1 paint2 =
     (case (rgb_to_cmy (color paint1), rgb_to_cmy (color paint2)) of
        ((c1, m1, y1), (c2, m2, y2)) \<Rightarrow>
          let a1 = amount paint1; a2 = amount paint2;
              total_amount = fl64 (a1 + a2)
          in if total_amount = 0 then Inl ZeroDivisionError
             else Inr (cmy_to_rgb (mix_channel c1 a1 c2 a2 total_amount,
                                   mix_channel m1 a1 m2 a2 total_amount,
                                   mix_channel y1 a1 y2 a2 total_amount)))"

definition mix_with :: "Paint \<Rightarrow> Paint \<Rightarrow> error + Paint" where
  "mix_with self other =
     (let mixed_amount = fl64 (amount self + amount other)
      in case mix_colors self other of
           Inl e \<Rightarrow> Inl e
         | Inr mixed_color \<Rightarrow> Inr \<lparr>color = mixed_color, amount = mixed_amount\<rparr>)"

text \<open>
  \<^verbatim>\<open>subtract_amount\<close> and \<^verbatim>\<open>split\<close> mutate the receiver: the models return the
  receiver as the call leaves it, \<open>split\<close> next to the pair it returns.
\<close>

definition subtract_amount :: "Paint \<Rightarrow> real \<Rightarrow> Paint" where
  "subtract_amount self a = self\<lparr>amount := max (fl64 (amount self - a)) 0\<rparr>"

definition split :: "Paint \<Rightarrow> real \<Rightarrow> (Paint \<times> Paint option) \<times> Paint" where
  "split self split_amount =
     (if split_amount \<le> 0 then ((\<lparr>color = color self, amount = 0\<rparr>, None), self)
      else if amount self \<le> split_amount
        then ((\<lparr>color = color self, amount = amount self\<rparr>, None), self)
      else let new_paint = \<lparr>color = color self, amount = split_amount\<rparr>;
               self' = subtract_amount self split_amount
           in ((new_paint, Some \<lparr>color = color self', amount = amount self'\<rparr>), self'))"

section \<open>ColorMixingEnv\<close>

text \<open>
  The environment's state. \<^verbatim>\<open>self.beakers\<close> is a list of references to \<^verbatim>\<open>Paint\<close>
  objects, and the constructor keeps the list it is given, so two slots may hold one
  object. The objects live in a store, a list in which an object's reference is its
  position, and \<^verbatim>\<open>Paint(...)\<close> puts a new object at its end. The store holds the objects
  a beaker slot can refer to; the portion that \<open>split\<close> hands out and the snapshot it
  returns do not outlive the step and stay values. The target paint is built by the
  constructor and never changed. The declared action and observation spaces play no part
  in \<^verbatim>\<open>reset\<close> and \<^verbatim>\<open>step\<close> and are left out, as is the empty info dictionary both return.
\<close>

type_synonym ref = nat

record ColorMixingEnv =
  store :: "Paint list"
  beakers :: "ref list"
  target_paint :: Paint
  max_steps :: int
  step_count :: int

text \<open>The constructor, given the objects that exist and the list of references to them.\<close>

definition init :: "Paint list \<Rightarrow> ref list \<Rightarrow> rgb \<Rightarrow> real \<Rightarrow> int \<Rightarrow> ColorMixingEnv" where
  "init objects bs target_color target_amount ms =
     \<lparr>store = objects, beakers = bs,
      target_paint = \<lparr>color = target_color, amount = target_amount\<rparr>,
      max_steps = ms, step_count = 0\<rparr>"

text \<open>The paints of the beakers, slot by slot: what \<^verbatim>\<open>for beaker in self.beakers\<close> visits.\<close>

definition paints :: "ColorMixingEnv \<Rightarrow> Paint list" where
  "paints s = map (\<lambda>r. store s ! r) (beakers s)"

type_synonym observation = "real list list"

text \<open>
  \<^verbatim>\<open>_get_observation\<close>: with no beaker both arrays are one-dimensional and
  \<^verbatim>\<open>np.concatenate(..., axis=1)\<close> raises.
\<close>

definition observation_row :: "Paint \<Rightarrow> real list" where
  "observation_row beaker =
     (case color beaker of (r, g, b) \<Rightarrow> [of_int r, of_int g, of_int b, amount beaker])"

definition get_observation :: "ColorMixingEnv \<Rightarrow> error + observation" where
  "get_observation s =
     (if beakers s = [] then Inl AxisError else Inr (map observation_row (paints s)))"

text \<open>
  \<^verbatim>\<open>_calculate_reward\<close>: \<^verbatim>\<open>np.linalg.norm\<close> of the difference of the two colours, the
  absolute difference of the amounts, and the loop keeping the least total.
\<close>

definition color_distance :: "rgb \<Rightarrow> rgb \<Rightarrow> real" where
  "color_distance c1 c2 =
     (case (c1, c2) of
        ((r1, g1, b1), (r2, g2, b2)) \<Rightarrow>
          fl64 (sqrt (of_int ((r1 - r2)\<^sup>2 + (g1 - g2)\<^sup>2 + (b1 - b2)\<^sup>2))))"

definition total_distance :: "Paint \<Rightarrow> Paint \<Rightarrow> real" where
  "total_distance target beaker =
     (let color_distance = color_distance (color beaker) (color target);
          amount_distance = \<bar>fl64 (amount beaker - amount target)\<bar>
      in fl64 (color_distance + amount_distance))"

fun best_distance :: "Paint \<Rightarrow> Paint list \<Rightarrow> pyfloat \<Rightarrow> pyfloat" where
  "best_distance target [] best = best"
| "best_distance target (beaker # rest) best =
     (let total = Finite (total_distance target beaker)
      in best_distance target rest (if float_less total best then total else best))"

definition calculate_reward :: "ColorMixingEnv \<Rightarrow> pyfloat" where
  "calculate_reward s = float_neg (best_distance (target_paint s) (paints s) PosInf)"

text \<open>
  \<^verbatim>\<open>reset\<close> builds a new object for every slot, from the paint the slot holds now, and
  a new list of them.
\<close>

definition reset :: "ColorMixingEnv \<Rightarrow> error + observation \<times> ColorMixingEnv" where
  "reset s =
     (let copies = map (\<lambda>paint. \<lparr>color = color paint, amount = amount paint\<rparr>) (paints s);
          s' = s\<lparr>store := store s @ copies,
                 beakers := [length (store s) ..< length (store s) + length copies],
                 step_count := 0\<rparr>
      in case get_observation s' of
           Inl e \<Rightarrow> Inl e
         | Inr obs \<Rightarrow> Inr (obs, s'))"

type_synonym action = "int \<times> int \<times> int"

text \<open>
  \<^verbatim>\<open>step\<close>. Both beakers are looked up first; \<open>split\<close> then changes the source object in
  place, which the store records at the source's reference, so that \<^verbatim>\<open>to_beaker\<close> shows
  the change whenever it is that same object. The mixed paint is a new object, and the
  destination slot is set to it. The result is the tuple
  \<open>(observation, reward, done, truncated)\<close> and the state; an exception is the error alone,
  the state it leaves behind is not kept.
\<close>

definition step ::
  "ColorMixingEnv \<Rightarrow> action \<Rightarrow> error + (observation \<times> pyfloat \<times> bool \<times> bool) \<times> ColorMixingEnv" where
  "step s action =
     (case action of (from_beaker_index, to_beaker_index, amount_ratio) \<Rightarrow>
        (case py_index (beakers s) from_beaker_index of
           Inl e \<Rightarrow> Inl e
         | Inr i \<Rightarrow>
            (case py_index (beakers s) to_beaker_index of
               Inl e \<Rightarrow> Inl e
             | Inr j \<Rightarrow>
                (let from_ref = beakers s ! i;
                     to_ref = beakers s ! j;
                     from_beaker = store s ! from_ref;
                     amount_ratio = fl64 (of_int amount_ratio / 100);
                     amount_to_transfer = fl64 (amount_ratio * amount from_beaker);
                     (returned, from_beaker') = split from_beaker amount_to_transfer;
                     paint_to_transfer = fst returned;
                     objects = (store s)[from_ref := from_beaker'];
                     to_beaker = objects ! to_ref
                 in (case mix_with to_beaker paint_to_transfer of
                       Inl e \<Rightarrow> Inl e
                     | Inr mixed_paint \<Rightarrow>
                        (let s' = s\<lparr>store := objects @ [mixed_paint],
                                     beakers := (beakers s)[j := length objects],
                                     step_count := step_count s + 1\<rparr>;
                             done = (max_steps s' \<le> step_count s');
                             reward = calculate_reward s';
                             truncated = False
                         in (case get_observation s' of
                               Inl e \<Rightarrow> Inl e
                             | Inr obs \<Rightarrow> Inr ((obs, reward, done, truncated), s'))))))))"

section \<open>Episodes, measures and example environments\<close>

text \<open>
  An episode drives \<open>step\<close> through a list of actions and keeps the \<open>(done, truncated)\<close>
  pair of every step; an exception ends it.
\<close>

fun episode :: "ColorMixingEnv \<Rightarrow> action list \<Rightarrow> error + (bool \<times> bool) list \<times> ColorMixingEnv" where
  "episode s [] = Inr ([], s)"
| "episode s (a # as) =
     (case step s a of
        Inl e \<Rightarrow> Inl e
      | Inr ((obs, reward, done, truncated), s') \<Rightarrow>
         (case episode s' as of
            Inl e \<Rightarrow> Inl e
          | Inr (flags, s'') \<Rightarrow> Inr ((done, truncated) # flags, s'')))"

text \<open>The sum of the amounts over all beakers.\<close>

definition total_amount :: "ColorMixingEnv \<Rightarrow> real" where
  "total_amount s = sum_list (map amount (paints s))"

text \<open>
  Every slot holds an object of its own: the references are in the store and no two
  slots share one. \<open>reset\<close> leaves the environment so and \<open>step\<close> keeps it so.
\<close>

definition separate :: "ColorMixingEnv \<Rightarrow> bool" where
  "separate s \<longleftrightarrow> distinct (beakers s) \<and> list_all (\<lambda>r. r < length (store s)) (beakers s)"

text \<open>A float operation is exact when its real result is a double already.\<close>

definition exact :: "real \<Rightarrow> bool" where
  "exact x \<longleftrightarrow> fl64 x = x"

text \<open>
  The paint in slot \<open>i\<close>, the amount a step of ratio \<open>r\<close> asks of it
  (\<^verbatim>\<open>amount_to_transfer\<close>), and what \<^verbatim>\<open>from_beaker.split(amount_to_transfer)\<close> then
  returns and leaves.
\<close>

definition beaker_at :: "ColorMixingEnv \<Rightarrow> nat \<Rightarrow> Paint" where
  "beaker_at s i = store s ! (beakers s ! i)"

definition amount_to_transfer :: "ColorMixingEnv \<Rightarrow> nat \<Rightarrow> int \<Rightarrow> real" where
  "amount_to_transfer s i amount_ratio =
     fl64 (fl64 (of_int amount_ratio / 100) * amount (beaker_at s i))"

definition transferred :: "ColorMixingEnv \<Rightarrow> nat \<Rightarrow> int \<Rightarrow> (Paint \<times> Paint option) \<times> Paint" where
  "transferred s i amount_ratio = split (beaker_at s i) (amount_to_transfer s i amount_ratio)"

text \<open>
  \<open>exact_mix\<close>: none of the float operations of \<^verbatim>\<open>mix_with\<close> on two paints rounds, that
  is the sum of the amounts and, in each channel, the two products, their sum and the
  quotient.
\<close>

definition channels :: "rgb \<Rightarrow> int list" where
  "channels c = (case c of (x, y, z) \<Rightarrow> [x, y, z])"

definition exact_mix :: "Paint \<Rightarrow> Paint \<Rightarrow> bool" where
  "exact_mix paint1 paint2 =
     (let a1 = amount paint1; a2 = amount paint2
      in exact (a1 + a2) \<and>
         list_all (\<lambda>(k1, k2). exact (of_int k1 * a1) \<and> exact (of_int k2 * a2) \<and>
                     exact (of_int k1 * a1 + of_int k2 * a2) \<and>
                     exact ((of_int k1 * a1 + of_int k2 * a2) / (a1 + a2)))
           (zip (channels (rgb_to_cmy (color paint1))) (channels (rgb_to_cmy (color paint2)))))"

text \<open>The environment the script builds (\<^verbatim>\<open>max_steps\<close> at its default).\<close>

definition env :: ColorMixingEnv where
  "env = init [\<lparr>color = (255, 0, 0), amount = 100\<rparr>,
               \<lparr>color = (0, 255, 0), amount = 100\<rparr>,
               \<lparr>color = (0, 0, 255), amount = 100\<rparr>] [0, 1, 2] (128, 128, 0) 150 100"

text \<open>A one-beaker environment whose beaker is the target already, with a horizon of 2.\<close>

definition lone_env :: ColorMixingEnv where
  "lone_env = init [\<lparr>color = (0, 0, 0), amount = 1\<rparr>] [0] (0, 0, 0) 1 2"

text \<open>
  Three beakers at the distances 12, 6 and 13 from the target: the colours are 12, 5 and
  13 away from black, and the middle beaker holds one unit too much.
\<close>

definition far_env :: ColorMixingEnv where
  "far_env = init [\<lparr>color = (0, 0, 12), amount = 1\<rparr>,
                   \<lparr>color = (3, 4, 0), amount = 2\<rparr>,
                   \<lparr>color = (5, 12, 0), amount = 1\<rparr>] [0, 1, 2] (0, 0, 0) 1 100"

text \<open>
  Two environments whose steps round. \<open>tenth\<close> is the double that \<^verbatim>\<open>0.1\<close> denotes.
\<close>

definition tenth :: real where
  "tenth = 3602879701896397 / 2 ^ 55"

definition tenth_env :: ColorMixingEnv where
  "tenth_env = init [\<lparr>color = (0, 0, 0), amount = tenth\<rparr>,
                     \<lparr>color = (0, 0, 0), amount = 7\<rparr>] [0, 1] (0, 0, 0) 7 100"

definition pale_env :: ColorMixingEnv where
  "pale_env = init [\<lparr>color = (252, 0, 0), amount = 33\<rparr>] [0] (252, 0, 0) 33 100"

text \<open>One paint in both slots, as \<^verbatim>\<open>ColorMixingEnv([p, p], ...)\<close> builds it.\<close>

definition shared_env :: ColorMixingEnv where
  "shared_env = init [\<lparr>color = (255, 0, 0), amount = 100\<rparr>] [0, 0] (128, 128, 0) 150 100"

section \<open>What a successful step is\<close>

lemma step_Inr_iff:
  "step s (fi, ti, r) = Inr ((obs, reward, d, t), s') \<longleftrightarrow>
   (\<exists>i j mixed.
      py_index (beakers s) fi = Inr i \<and> py_index (beakers s) ti = Inr j \<and>
      mix_with ((store s)[beakers s ! i := snd (transferred s i r)] ! (beakers s ! j))
               (fst (fst (transferred s i r))) = Inr mixed \<and>
      s' = s\<lparr>store := (store s)[beakers s ! i := snd (transferred s i r)] @ [mixed],
               beakers := (beakers s)[j := length (store s)],
               step_count := step_count s + 1\<rparr> \<and>
      get_observation s' = Inr obs \<and> reward = calculate_reward s' \<and>
      d = (max_steps s \<le> step_count s + 1) \<and> t = False)"
  by (auto simp: step_def transferred_def amount_to_transfer_def beaker_at_def Let_def
      split: sum.splits prod.splits)

lemma step_counters:
  assumes "step s a = Inr ((obs, reward, d, t), s')"
  shows "step_count s' = step_count s + 1" and "max_steps s' = max_steps s"
    and "d = (max_steps s \<le> step_count s + 1)" and "t = False"
    and "length (beakers s') = length (beakers s)"
    and "target_paint s' = target_paint s"
    and "get_observation s' = Inr obs" and "reward = calculate_reward s'"
  using assms by (cases a; auto simp: step_Inr_iff)+

text \<open>The state a step leaves, from the four things it computes on the way.\<close>

lemma step_state:
  assumes "py_index (beakers s) fi = Inr i" and "py_index (beakers s) ti = Inr j"
    and "transferred s i r = (returned, from_beaker')"
    and "mix_with ((store s)[beakers s ! i := from_beaker'] ! (beakers s ! j)) (fst returned) =
           Inr mixed_paint"
  shows "map_sum id snd (step s (fi, ti, r)) =
           Inr (s\<lparr>store := (store s)[beakers s ! i := from_beaker'] @ [mixed_paint],
                  beakers := (beakers s)[j := length (store s)],
                  step_count := step_count s + 1\<rparr>)"
proof -
  from assms(1) have "beakers s \<noteq> []" by (auto simp: py_index_def Let_def split: if_splits)
  then show ?thesis using assms
    by (simp add: step_def transferred_def amount_to_transfer_def beaker_at_def
        get_observation_def Let_def)
qed

lemma py_index_valid: "0 \<le> i \<Longrightarrow> i < int (length xs) \<Longrightarrow> py_index xs i = Inr (nat i)"
  by (simp add: py_index_def)

lemma map_sum_snd: "map_sum id (f \<circ> snd) x = map_sum id f (map_sum id snd x)"
  by (cases x) auto

lemma length_paints: "length (paints s) = length (beakers s)"
  by (simp add: paints_def)

section \<open>Facts about the rounding\<close>

lemma fl64_0: "fl64 0 = 0"
  by (simp add: fl64_def)

lemma round_half_even_nonneg: "0 \<le> x \<Longrightarrow> 0 \<le> round_half_even x"
  by (auto simp: round_half_even_def Let_def)

lemma fl64_nonneg: "0 \<le> x \<Longrightarrow> 0 \<le> fl64 x"
  by (auto simp: fl64_def Let_def
      intro!: mult_nonneg_nonneg round_half_even_nonneg divide_nonneg_nonneg)

lemma round_half_even_le: "real_of_int (round_half_even x) \<le> x + 1 / 2"
proof -
  have "real_of_int \<lfloor>x\<rfloor> \<le> x" by simp
  then show ?thesis unfolding round_half_even_def Let_def by (auto; linarith)
qed

lemma fl64_le:
  assumes "0 < y"
  shows "fl64 y \<le> y + 2 powi (exponent y - 52) / 2"
proof -
  let ?q = "2 powi (exponent y - 52) :: real"
  have q: "0 < ?q" by simp
  have "real_of_int (round_half_even (y / ?q)) * ?q \<le> (y / ?q + 1 / 2) * ?q"
    using round_half_even_le[of "y / ?q"] q by (intro mult_right_mono) auto
  also have "\<dots> = y + ?q / 2" using q by (simp add: field_simps)
  finally show ?thesis using assms by (simp add: fl64_def Let_def)
qed

lemma exponent_le:
  assumes "0 < y"
  shows "2 powi (exponent y) \<le> max y (2 powi (- 1022))"
proof (cases "1 \<le> y")
  case True
  then have pos: "0 < \<lfloor>y\<rfloor>" by linarith
  have e: "exponent y = bitlen \<lfloor>y\<rfloor> - 1" using True assms by (simp add: exponent_def Let_def)
  from bitlen_bounds[OF pos] have "2 ^ nat (bitlen \<lfloor>y\<rfloor> - 1) \<le> \<lfloor>y\<rfloor>" by simp
  then have "(2::real) ^ nat (bitlen \<lfloor>y\<rfloor> - 1) \<le> real_of_int \<lfloor>y\<rfloor>"
    by (metis of_int_le_iff of_int_numeral of_int_power)
  also have "\<dots> \<le> y" by simp
  finally have "(2::real) ^ nat (bitlen \<lfloor>y\<rfloor> - 1) \<le> y" .
  moreover have "0 \<le> bitlen \<lfloor>y\<rfloor> - 1" using pos by (simp add: bitlen_alt_def)
  ultimately show ?thesis unfolding e by (simp add: power_int_def le_max_iff_disj)
next
  case False
  let ?n = "\<lceil>1 / y\<rceil> - 1" and ?k = "bitlen (\<lceil>1 / y\<rceil> - 1)"
  have e: "exponent y = max (- ?k) (- 1022)" using False assms by (simp add: exponent_def Let_def)
  show ?thesis
  proof (cases "- ?k \<le> - 1022")
    case True
    then show ?thesis unfolding e by (simp add: max_def)
  next
    case k: False
    have "1 < 1 / y" using False assms by simp
    then have pos: "0 < ?n" by linarith
    from bitlen_bounds[OF pos] have "?n < 2 ^ nat ?k" by simp
    then have "\<lceil>1 / y\<rceil> \<le> 2 ^ nat ?k" by simp
    then have "1 / y \<le> 2 ^ nat ?k"
      by (metis ceiling_le_iff of_int_numeral of_int_power)
    then have "1 / 2 ^ nat ?k \<le> y" using assms by (simp add: field_simps)
    moreover have "0 \<le> ?k" by (rule bitlen_nonneg)
    moreover have "exponent y = - ?k" using k unfolding e by simp
    ultimately show ?thesis
      by (auto simp: power_int_def le_max_iff_disj inverse_eq_divide power_one_over)
  qed
qed

lemma fl64_le_rel:
  assumes "0 < y"
  shows "fl64 y \<le> y + max y (2 powi (- 1022)) / 2 ^ 53"
proof -
  have "(2::real) powi (exponent y - 52) = 2 powi (exponent y) / 2 ^ 52"
    by (simp add: power_int_diff)
  then have "(2::real) powi (exponent y - 52) / 2 = 2 powi (exponent y) / 2 ^ 53" by simp
  also have "\<dots> \<le> max y (2 powi (- 1022)) / 2 ^ 53"
    using exponent_le[OF assms] by (intro divide_right_mono) auto
  finally show ?thesis using fl64_le[OF assms] by linarith
qed

text \<open>A transfer of less than the whole: ratios below 100 never take a whole normal amount.\<close>

lemma transfer_below:
  assumes r: "0 \<le> r" "r < 100" and A: "2 powi (- 1022) \<le> A"
  shows "0 \<le> fl64 (fl64 (of_int r / 100) * A) \<and> fl64 (fl64 (of_int r / 100) * A) < A"
proof -
  let ?c = "fl64 (of_int r / 100)"
  have Apos: "0 < A" using A by (smt (verit) zero_less_power_int)
  have c0: "0 \<le> ?c" using r by (intro fl64_nonneg) simp
  have c1: "?c \<le> 99 / 100 + 1 / 2 ^ 53"
  proof (cases "r = 0")
    case True
    then show ?thesis by (simp add: fl64_0)
  next
    case False
    with r have rp: "0 < real_of_int r / 100" and r99: "real_of_int r / 100 \<le> 99 / 100" by auto
    have "(2::real) powi (- 1022) \<le> 1" by (simp add: power_int_def power_one_over[symmetric] power_le_one)
    then have "max (real_of_int r / 100) (2 powi (- 1022)) \<le> 1" using r99 by simp
    then have "max (real_of_int r / 100) (2 powi (- 1022)) / 2 ^ 53 \<le> 1 / 2 ^ 53"
      by (intro divide_right_mono) auto
    with fl64_le_rel[OF rp] r99 show ?thesis by linarith
  qed
  have t0: "0 \<le> fl64 (?c * A)" using c0 Apos by (intro fl64_nonneg) simp
  have "fl64 (?c * A) < A"
  proof (cases "?c * A = 0")
    case True
    then show ?thesis using Apos by (simp add: fl64_0)
  next
    case False
    then have yp: "0 < ?c * A" using c0 Apos by (simp add: less_le)
    have "?c * A \<le> 1 * A" using c1 Apos by (intro mult_right_mono) auto
    then have "max (?c * A) (2 powi (- 1022)) \<le> A" using A by simp
    then have "max (?c * A) (2 powi (- 1022)) / 2 ^ 53 \<le> A / 2 ^ 53"
      by (intro divide_right_mono) auto
    with fl64_le_rel[OF yp] have "fl64 (?c * A) \<le> ?c * A + A / 2 ^ 53" by linarith
    also have "\<dots> = (?c + 1 / 2 ^ 53) * A" by (simp add: algebra_simps)
    also have "\<dots> < 1 * A" using c1 Apos by (intro mult_strict_right_mono) auto
    finally show ?thesis by simp
  qed
  with t0 show ?thesis by simp
qed


section \<open>Slots with objects of their own\<close>

lemma separate_nth:
  assumes "separate s" "k < length (beakers s)"
  shows "beakers s ! k < length (store s)"
  using assms by (simp add: separate_def list_all_length)

text \<open>
  With every slot on its own object a step acts on the paints as on a list of values: the
  source's slot gets what the split leaves, then the destination's slot the mixed paint.
\<close>

lemma paints_step:
  assumes sep: "separate s" and i: "i < length (beakers s)" and j: "j < length (beakers s)"
  shows "paints (s\<lparr>store := (store s)[beakers s ! i := p] @ [m],
                   beakers := (beakers s)[j := length (store s)],
                   step_count := c\<rparr>) = (paints s)[i := p, j := m]"
proof (rule nth_equalityI)
  show "length (paints (s\<lparr>store := (store s)[beakers s ! i := p] @ [m],
                   beakers := (beakers s)[j := length (store s)],
                   step_count := c\<rparr>)) = length ((paints s)[i := p, j := m])"
    by (simp add: paints_def)
next
  fix k
  assume "k < length (paints (s\<lparr>store := (store s)[beakers s ! i := p] @ [m],
                   beakers := (beakers s)[j := length (store s)],
                   step_count := c\<rparr>))"
  then have k: "k < length (beakers s)" by (simp add: paints_def)
  have d: "distinct (beakers s)" using sep by (simp add: separate_def)
  show "paints (s\<lparr>store := (store s)[beakers s ! i := p] @ [m],
                   beakers := (beakers s)[j := length (store s)],
                   step_count := c\<rparr>) ! k = (paints s)[i := p, j := m] ! k"
  proof (cases "k = j")
    case True
    have "((store s)[beakers s ! i := p] @ [m]) ! length ((store s)[beakers s ! i := p]) = m"
      by (rule nth_append_length)
    then show ?thesis using True j by (simp add: paints_def)
  next
    case False
    have kb: "beakers s ! k < length (store s)" by (rule separate_nth[OF sep k])
    have "(beakers s ! k = beakers s ! i) = (k = i)"
      using d k i by (simp add: nth_eq_iff_index_eq)
    then show ?thesis using False k i j kb
      by (auto simp: paints_def nth_append nth_list_update)
  qed
qed

lemma separate_step:
  assumes "separate s" and "step s a = Inr (res, s')"
  shows "separate s'"
proof -
  obtain fi ti r where a: "a = (fi, ti, r)" by (cases a) auto
  obtain obs reward d t where res: "res = (obs, reward, d, t)" by (cases res) auto
  from assms(2)[unfolded a res step_Inr_iff] obtain i j mixed where
    j: "py_index (beakers s) ti = Inr j" and
    s': "s' = s\<lparr>store := (store s)[beakers s ! i := snd (transferred s i r)] @ [mixed],
               beakers := (beakers s)[j := length (store s)],
               step_count := step_count s + 1\<rparr>" by auto
  from j have jl: "j < length (beakers s)" by (auto simp: py_index_def Let_def split: if_splits)
  have d: "distinct (beakers s)" and b: "\<forall>r \<in> set (beakers s). r < length (store s)"
    using assms(1) by (auto simp: separate_def list_all_iff)
  have "length (store s) \<notin> set (beakers s)" using b by auto
  then have "distinct ((beakers s)[j := length (store s)])"
    using d jl by (simp add: distinct_list_update)
  moreover have "\<forall>r \<in> set ((beakers s)[j := length (store s)]). r < Suc (length (store s))"
    using b jl by (auto simp: set_update_distinct[OF d jl] less_Suc_eq)
  ultimately show ?thesis unfolding s' by (simp add: separate_def list_all_iff)
qed

lemma separate_reset:
  assumes "reset s = Inr (obs, s')"
  shows "separate s'"
  using assms
  by (auto simp: reset_def Let_def separate_def list_all_iff paints_def split: sum.splits)


section \<open>Steps of the example environments\<close>

lemma lone_mix:
  "mix_with \<lparr>color = (0, 0, 0), amount = 1\<rparr> \<lparr>color = (0, 0, 0), amount = 0\<rparr> =
     Inr \<lparr>color = (0, 0, 0), amount = 1\<rparr>"
  by code_simp

text \<open>A transfer of ratio 0 puts a copy of the lone beaker in its slot.\<close>

lemma lone_step:
  assumes "beakers s = [k]" and "k < length (store s)"
    and "store s ! k = \<lparr>color = (0, 0, 0), amount = 1\<rparr>"
  shows "step s (0, 0, 0) =
     Inr (([[0, 0, 0, 1]],
           calculate_reward (s\<lparr>store := store s @ [\<lparr>color = (0, 0, 0), amount = 1\<rparr>],
                               beakers := [length (store s)],
                               step_count := step_count s + 1\<rparr>),
           max_steps s \<le> step_count s + 1, False),
          s\<lparr>store := store s @ [\<lparr>color = (0, 0, 0), amount = 1\<rparr>],
            beakers := [length (store s)],
            step_count := step_count s + 1\<rparr>)"
proof -
  have "(store s)[k := \<lparr>color = (0, 0, 0), amount = 1\<rparr>] = store s"
    using assms(3) by (metis list_update_id)
  then show ?thesis using assms
    by (simp add: step_def py_index_def fl64_0 split_def lone_mix get_observation_def
        observation_row_def paints_def Let_def)
qed

lemma env_index: "py_index (beakers env) 0 = Inr 0" "py_index (beakers env) 1 = Inr 1"
  by code_simp+

lemma env_transferred:
  "transferred env 0 50 =
     ((\<lparr>color = (255, 0, 0), amount = 50\<rparr>, Some \<lparr>color = (255, 0, 0), amount = 50\<rparr>),
      \<lparr>color = (255, 0, 0), amount = 50\<rparr>)"
  by code_simp

lemma env_mixed:
  "mix_with ((store env)[beakers env ! 0 := \<lparr>color = (255, 0, 0), amount = 50\<rparr>] !
               (beakers env ! 1))
     (fst (\<lparr>color = (255, 0, 0), amount = 50\<rparr>, Some \<lparr>color = (255, 0, 0), amount = 50\<rparr>)) =
     Inr \<lparr>color = (85, 170, 0), amount = 150\<rparr>"
  by code_simp

lemma env_step:
  "map_sum id snd (step env (0, 1, 50)) =
     Inr (env\<lparr>store := [\<lparr>color = (255, 0, 0), amount = 50\<rparr>,
                          \<lparr>color = (0, 255, 0), amount = 100\<rparr>,
                          \<lparr>color = (0, 0, 255), amount = 100\<rparr>,
                          \<lparr>color = (85, 170, 0), amount = 150\<rparr>],
              beakers := [0, 3, 2], step_count := 1\<rparr>)"
  using step_state[OF env_index env_transferred env_mixed] by (simp add: env_def init_def)

section \<open>The script's scenario\<close>

text \<open>
  Claim C8. From the script's beakers, the action \<open>(0, 1, 50)\<close> succeeds and leaves beaker 1
  with colour \<open>(85, 170, 0)\<close> and amount \<open>150\<close>.
\<close>

theorem scenario:
  "map_sum id ((\<lambda>s'. paints s' ! 1) \<circ> snd) (step env (0, 1, 50)) =
     Inr \<lparr>color = (85, 170, 0), amount = 150\<rparr>"
  unfolding map_sum_snd env_step by (simp add: paints_def)

section \<open>What reset restores\<close>

text \<open>
  Claim C1, at the script's environment: after the step \<open>(0, 1, 50)\<close>, \<open>reset\<close> sets the
  counter to 0 and returns copies of the beakers as the step left them, \<open>50\<close> of red and
  \<open>150\<close> of the mixture, not the three beakers of \<open>100\<close> the environment was built with.
\<close>

theorem reset_keeps_current:
  "map_sum id (map_sum id (\<lambda>(obs, s'). (obs, paints s', step_count s')) \<circ> reset \<circ> snd)
     (step env (0, 1, 50)) =
     Inr (Inr ([[255, 0, 0, 50], [85, 170, 0, 150], [0, 0, 255, 100]],
               [\<lparr>color = (255, 0, 0), amount = 50\<rparr>,
                \<lparr>color = (85, 170, 0), amount = 150\<rparr>,
                \<lparr>color = (0, 0, 255), amount = 100\<rparr>], 0)) \<and>
   paints env = [\<lparr>color = (255, 0, 0), amount = 100\<rparr>,
                 \<lparr>color = (0, 255, 0), amount = 100\<rparr>,
                 \<lparr>color = (0, 0, 255), amount = 100\<rparr>]"
proof
  show "map_sum id (map_sum id (\<lambda>(obs, s'). (obs, paints s', step_count s')) \<circ> reset \<circ> snd)
     (step env (0, 1, 50)) =
     Inr (Inr ([[255, 0, 0, 50], [85, 170, 0, 150], [0, 0, 255, 100]],
               [\<lparr>color = (255, 0, 0), amount = 50\<rparr>,
                \<lparr>color = (85, 170, 0), amount = 150\<rparr>,
                \<lparr>color = (0, 0, 255), amount = 100\<rparr>], 0))"
    unfolding map_sum_snd env_step
    by (simp add: reset_def get_observation_def observation_row_def paints_def upt_rec)
  show "paints env = [\<lparr>color = (255, 0, 0), amount = 100\<rparr>,
                 \<lparr>color = (0, 255, 0), amount = 100\<rparr>,
                 \<lparr>color = (0, 0, 255), amount = 100\<rparr>]"
    by (simp add: env_def init_def paints_def)
qed

section \<open>Splitting\<close>

text \<open>
  Claim C2, at a paint of amount \<open>100\<close> asked for \<open>100\<close>: the portion returned holds \<open>100\<close>
  and the receiver still holds \<open>100\<close>, so the two add up to \<open>200\<close>.
\<close>

theorem split_all_keeps_receiver:
  "split \<lparr>color = (255, 0, 0), amount = 100\<rparr> 100 =
     ((\<lparr>color = (255, 0, 0), amount = 100\<rparr>, None), \<lparr>color = (255, 0, 0), amount = 100\<rparr>) \<and>
   amount (fst (fst (split \<lparr>color = (255, 0, 0), amount = 100\<rparr> 100))) +
   amount (snd (split \<lparr>color = (255, 0, 0), amount = 100\<rparr> 100)) = 200"
  by (simp add: split_def)

section \<open>Mixing two empty paints\<close>

text \<open>
  Claim C4. Mixing two paints of amount zero raises \<^verbatim>\<open>ZeroDivisionError\<close>, whatever the
  colours, and a step does so when it transfers nothing (ratio 0) into an empty beaker.
\<close>

theorem mix_zero_amounts:
  "mix_colors \<lparr>color = c1, amount = 0\<rparr> \<lparr>color = c2, amount = 0\<rparr> = Inl ZeroDivisionError \<and>
   step (init [\<lparr>color = (255, 0, 0), amount = 100\<rparr>, \<lparr>color = (0, 255, 0), amount = 0\<rparr>] [0, 1]
           (128, 128, 0) 150 100) (0, 1, 0) = Inl ZeroDivisionError"
  by (simp add: step_def init_def py_index_def fl64_0 split_def mix_with_def mix_colors_def
      rgb_to_cmy_def Let_def split: prod.splits)

section \<open>Mixing is commutative\<close>

text \<open>
  Claim C5. Mixing \<open>Paint(c1, a1)\<close> with \<open>Paint(c2, a2)\<close> gives what mixing
  \<open>Paint(c2, a2)\<close> with \<open>Paint(c1, a1)\<close> gives: the same colour, channel by channel as the
  doubles compute it, when the total amount is not zero, and the same
  \<^verbatim>\<open>ZeroDivisionError\<close> when it is.
\<close>

theorem mix_colors_commute:
  "mix_colors \<lparr>color = c1, amount = a1\<rparr> \<lparr>color = c2, amount = a2\<rparr> =
   mix_colors \<lparr>color = c2, amount = a2\<rparr> \<lparr>color = c1, amount = a1\<rparr>"
  by (simp add: mix_colors_def mix_channel_def Let_def add.commute split: prod.splits)

section \<open>The reward\<close>

lemma total_distance_nonneg: "0 \<le> total_distance target beaker"
  by (auto simp: total_distance_def color_distance_def Let_def split: prod.splits
      intro!: fl64_nonneg add_nonneg_nonneg)

lemma Min_insert_min:
  fixes m d :: real
  assumes "finite S"
  shows "Min (insert (min m d) S) = min m (Min (insert d S))"
proof (cases "S = {}")
  case True
  then show ?thesis by simp
next
  case False
  with assms show ?thesis by (simp add: min.assoc)
qed

text \<open>The loop, entered with a finite best distance, leaves the least of it and the totals.\<close>

lemma best_distance_Finite:
  "best_distance target bs (Finite m) = Finite (Min (insert m (total_distance target ` set bs)))"
proof (induction bs arbitrary: m)
  case Nil
  then show ?case by simp
next
  case (Cons b bs)
  let ?d = "total_distance target b" and ?S = "total_distance target ` set bs"
  have fin: "finite ?S" by simp
  have "best_distance target (b # bs) (Finite m) = best_distance target bs (Finite (min ?d m))"
    by (auto simp: Let_def min_def)
  also have "\<dots> = Finite (Min (insert (min ?d m) ?S))" by (rule Cons.IH)
  also have "Min (insert (min ?d m) ?S) = Min (insert m (insert ?d ?S))"
    using Min_insert_min[OF fin, of m ?d] fin by (simp add: min.commute)
  finally show ?case by simp
qed

lemma best_distance_PosInf:
  "bs \<noteq> [] \<Longrightarrow> best_distance target bs PosInf = Finite (Min (total_distance target ` set bs))"
  by (cases bs) (simp_all add: Let_def best_distance_Finite)

lemma calculate_reward_eq:
  "beakers s \<noteq> [] \<Longrightarrow>
   calculate_reward s = Finite (- Min (total_distance (target_paint s) ` set (paints s)))"
  by (simp add: calculate_reward_def best_distance_PosInf paints_def)


text \<open>
  Claim C6. The reward a step returns is the negation of the least, over the beakers of
  the state the step leaves, of the Euclidean distance between the beaker's colour and the
  target colour plus the absolute difference between the beaker's amount and the target
  amount, each operation rounded as the doubles round it; and it is never above zero.
\<close>

theorem reward_is_negated_minimum:
  assumes "step s a = Inr ((obs, reward, d, t), s')"
  shows "reward =
           Finite (- Min ((\<lambda>beaker.
                      case (color beaker, color (target_paint s')) of
                        ((r1, g1, b1), (r2, g2, b2)) \<Rightarrow>
                          fl64 (fl64 (sqrt (of_int ((r1 - r2)\<^sup>2 + (g1 - g2)\<^sup>2 + (b1 - b2)\<^sup>2))) +
                                \<bar>fl64 (amount beaker - amount (target_paint s'))\<bar>))
                    ` set (paints s'))) \<and>
         float_le reward (Finite 0)"
proof -
  from step_counters(7,8)[OF assms]
  have ne: "beakers s' \<noteq> []" and r: "reward = calculate_reward s'"
    by (auto simp: get_observation_def split: if_splits)
  have td: "total_distance (target_paint s') =
      (\<lambda>beaker.
        case (color beaker, color (target_paint s')) of
          ((r1, g1, b1), (r2, g2, b2)) \<Rightarrow>
            fl64 (fl64 (sqrt (of_int ((r1 - r2)\<^sup>2 + (g1 - g2)\<^sup>2 + (b1 - b2)\<^sup>2))) +
                  \<bar>fl64 (amount beaker - amount (target_paint s'))\<bar>))"
    by (rule ext) (simp add: total_distance_def color_distance_def Let_def split: prod.splits)
  have pne: "paints s' \<noteq> []" using ne by (simp add: paints_def)
  have "0 \<le> Min (total_distance (target_paint s') ` set (paints s'))"
    using pne by (simp add: total_distance_nonneg)
  then have "reward = Finite (- Min (total_distance (target_paint s') ` set (paints s'))) \<and>
      float_le reward (Finite 0)"
    using r ne by (simp add: calculate_reward_eq)
  then show ?thesis unfolding td .
qed

lemma fl64_small:
  "fl64 1 = 1" "fl64 5 = 5" "fl64 6 = 6" "fl64 12 = 12" "fl64 13 = 13"
  by code_simp+

lemma sqrt_squares: "sqrt 25 = 5" "sqrt 144 = 12" "sqrt 169 = 13"
  by (rule real_sqrt_unique; simp)+

lemma far_distances:
  "total_distance \<lparr>color = (0, 0, 0), amount = 1\<rparr> \<lparr>color = (0, 0, 12), amount = 1\<rparr> = 12"
  "total_distance \<lparr>color = (0, 0, 0), amount = 1\<rparr> \<lparr>color = (3, 4, 0), amount = 2\<rparr> = 6"
  "total_distance \<lparr>color = (0, 0, 0), amount = 1\<rparr> \<lparr>color = (5, 12, 0), amount = 1\<rparr> = 13"
  by (simp_all add: total_distance_def color_distance_def fl64_0 fl64_small sqrt_squares)

lemma far_mix:
  "mix_with \<lparr>color = (5, 12, 0), amount = 1\<rparr> \<lparr>color = (5, 12, 0), amount = 0\<rparr> =
     Inr \<lparr>color = (5, 12, 0), amount = 1\<rparr>"
  by code_simp

lemma far_step:
  "step far_env (2, 2, 0) =
     Inr (([[0, 0, 12, 1], [3, 4, 0, 2], [5, 12, 0, 1]], Finite (- 6), False, False),
          far_env\<lparr>store := store far_env @ [\<lparr>color = (5, 12, 0), amount = 1\<rparr>],
                   beakers := [0, 1, 3], step_count := 1\<rparr>)"
  by (simp add: step_def far_env_def init_def py_index_def fl64_0 split_def far_mix
      get_observation_def observation_row_def paints_def calculate_reward_def far_distances
      Let_def)

theorem reward_is_negated_minimum_witness:
  "step far_env (2, 2, 0) =
     Inr (([[0, 0, 12, 1], [3, 4, 0, 2], [5, 12, 0, 1]], Finite (- 6), False, False),
          far_env\<lparr>store := store far_env @ [\<lparr>color = (5, 12, 0), amount = 1\<rparr>],
                   beakers := [0, 1, 3], step_count := 1\<rparr>) \<and>
   Min ((\<lambda>beaker.
           case (color beaker, (0, 0, 0)) of
             ((r1, g1, b1), (r2, g2, b2)) \<Rightarrow>
               fl64 (fl64 (sqrt (of_int ((r1 - r2)\<^sup>2 + (g1 - g2)\<^sup>2 + (b1 - b2)\<^sup>2))) +
                     \<bar>fl64 (amount beaker - 1)\<bar>))
         ` {\<lparr>color = (0, 0, 12), amount = 1\<rparr>, \<lparr>color = (3, 4, 0), amount = 2\<rparr>,
            \<lparr>color = (5, 12, 0), amount = 1\<rparr>}) = 6 \<and>
   float_le (Finite (- 6)) (Finite 0)"
  using reward_is_negated_minimum[OF far_step] far_step
  by (simp add: far_env_def init_def paints_def)

section \<open>The fixed horizon\<close>

text \<open>
  Claim C7. In every episode, whatever the actions, the \<open>k\<close>-th step (counted from 0)
  returns \<open>done\<close> exactly when the counter it has just incremented has reached
  \<open>max_steps\<close>, and \<open>truncated\<close> is \<open>False\<close> at every step; the counter grows by one a step.
\<close>

theorem fixed_horizon:
  "episode s as = Inr (flags, s') \<Longrightarrow>
     length flags = length as \<and> step_count s' = step_count s + int (length as) \<and>
     (\<forall>k < length as. flags ! k = (max_steps s \<le> step_count s + int k + 1, False))"
proof (induction as arbitrary: s flags)
  case Nil
  then show ?case by simp
next
  case (Cons a as)
  from Cons.prems obtain obs reward d t s1 fs where
    st: "step s a = Inr ((obs, reward, d, t), s1)" and
    ep: "episode s1 as = Inr (fs, s')" and fl: "flags = (d, t) # fs"
    by (auto split: sum.splits)
  note c = step_counters[OF st]
  from Cons.IH[OF ep] have ih: "length fs = length as"
    "step_count s' = step_count s1 + int (length as)"
    "\<forall>k < length as. fs ! k = (max_steps s1 \<le> step_count s1 + int k + 1, False)"
    by auto
  show ?case
  proof (intro conjI allI impI)
    show "length flags = length (a # as)" using fl ih by simp
    show "step_count s' = step_count s + int (length (a # as))" using ih c by simp
    fix k assume "k < length (a # as)"
    then show "flags ! k = (max_steps s \<le> step_count s + int k + 1, False)"
      using fl ih c by (cases k) (auto simp: add.commute add.left_commute)
  qed
qed


theorem fixed_horizon_witness:
  "episode lone_env [(0, 0, 0), (0, 0, 0)] =
     Inr ([(False, False), (True, False)],
          lone_env\<lparr>store := [\<lparr>color = (0, 0, 0), amount = 1\<rparr>, \<lparr>color = (0, 0, 0), amount = 1\<rparr>,
                              \<lparr>color = (0, 0, 0), amount = 1\<rparr>],
                   beakers := [2], step_count := 2\<rparr>) \<and>
   max_steps lone_env = 2 \<and> step_count lone_env = 0"
proof -
  have e: "episode lone_env [(0, 0, 0), (0, 0, 0)] =
      Inr ([(max_steps lone_env \<le> 1, False), (max_steps lone_env \<le> 2, False)],
           lone_env\<lparr>store := [\<lparr>color = (0, 0, 0), amount = 1\<rparr>, \<lparr>color = (0, 0, 0), amount = 1\<rparr>,
                              \<lparr>color = (0, 0, 0), amount = 1\<rparr>],
                   beakers := [2], step_count := 2\<rparr>)"
    by (simp add: lone_step lone_env_def init_def)
  from fixed_horizon[OF e] show ?thesis
    using e by (simp add: lone_env_def init_def)
qed

section \<open>The observation\<close>

text \<open>
  Claim C9. The observation that \<open>reset\<close> and \<open>step\<close> return has one row for each beaker,
  as many as before the call, and its \<open>i\<close>-th row is \<open>(R, G, B, amount)\<close> of the \<open>i\<close>-th
  beaker of the state the call leaves, in the beakers' order.
\<close>

theorem observation_rows:
  assumes "reset s = Inr (obs, s') \<or> step s a = Inr ((obs, reward, d, t), s')"
  shows "length obs = length (paints s) \<and> length (paints s') = length (paints s) \<and>
         (\<forall>i < length obs.
            obs ! i = (case color (paints s' ! i) of
                         (r, g, b) \<Rightarrow> [of_int r, of_int g, of_int b, amount (paints s' ! i)]))"
  using assms
proof
  assume "reset s = Inr (obs, s')"
  then show ?thesis
    by (auto simp: reset_def get_observation_def observation_row_def Let_def paints_def
        split: if_splits)
next
  assume st: "step s a = Inr ((obs, reward, d, t), s')"
  from step_counters(5,7)[OF st] show ?thesis
    by (auto simp: get_observation_def observation_row_def paints_def split: if_splits)
qed

theorem observation_rows_witness:
  "reset env = Inr ([[255, 0, 0, 100], [0, 255, 0, 100], [0, 0, 255, 100]],
                    env\<lparr>store := store env @ store env, beakers := [3, 4, 5]\<rparr>) \<and>
   length [[255, 0, 0, 100], [0, 255, 0, 100], [0, 0, 255, 100 :: real]] = length (paints env) \<and>
   paints (env\<lparr>store := store env @ store env, beakers := [3, 4, 5]\<rparr>) ! 1 =
     \<lparr>color = (0, 255, 0), amount = 100\<rparr>"
proof -
  have r: "reset env = Inr ([[255, 0, 0, 100], [0, 255, 0, 100], [0, 0, 255, 100]],
                    env\<lparr>store := store env @ store env, beakers := [3, 4, 5]\<rparr>)"
    by (simp add: reset_def env_def init_def get_observation_def observation_row_def paints_def
        upt_rec)
  from observation_rows[of env _ "env\<lparr>store := store env @ store env, beakers := [3, 4, 5]\<rparr>",
      OF disjI1, OF r] show ?thesis
    using r by (simp add: env_def init_def paints_def)
qed


section \<open>Conservation of the total amount\<close>

lemma sum_list_amount_update:
  "i < length bs \<Longrightarrow>
   sum_list (map amount (bs[i := p])) = sum_list (map amount bs) - amount (bs ! i) + amount p"
proof (induction bs arbitrary: i)
  case Nil
  then show ?case by simp
next
  case (Cons b bs)
  then show ?case by (cases i) auto
qed

lemma mix_with_amount: "mix_with p q = Inr m \<Longrightarrow> amount m = fl64 (amount p + amount q)"
  by (auto simp: mix_with_def Let_def split: sum.splits)

lemma split_same_color:
  "color (snd (split p x)) = color p" "color (fst (fst (split p x))) = color p"
  by (simp_all add: split_def subtract_amount_def Let_def)

text \<open>
  A split of less than the whole whose subtraction does not round: the portion holds what
  was asked and the receiver loses exactly that.
\<close>

lemma split_partial:
  assumes "0 \<le> x" and "x = 0 \<or> x < amount p" and "exact (amount p - x)"
  shows "amount (fst (fst (split p x))) = x" and "amount (snd (split p x)) = amount p - x"
  using assms by (auto simp: split_def subtract_amount_def exact_def Let_def max_def)

text \<open>What a step with a valid ratio asks of a source that is empty or a normal double.\<close>

lemma transfer_partial:
  assumes r: "0 \<le> r" "r < 100"
    and A: "amount (beaker_at s i) = 0 \<or> 2 powi (- 1022) \<le> amount (beaker_at s i)"
  shows "0 \<le> amount_to_transfer s i r"
    and "amount_to_transfer s i r = 0 \<or> amount_to_transfer s i r < amount (beaker_at s i)"
  using A transfer_below[OF r, of "amount (beaker_at s i)"]
  by (auto simp: amount_to_transfer_def fl64_0)

text \<open>
  Claim C3, amended. A step with a valid action (both indices in range, the ratio from 0
  to 99) that completes without error leaves the sum of the amounts as it was, provided
  every slot holds an object of its own, the source's amount is zero or a normal double,
  and the step's two float operations on amounts do not round: the source's amount less
  the amount to transfer is a double, and so is the destination's amount plus the amount
  to transfer (the destination being the source after the split when the indices meet).
\<close>

theorem conservation_when_exact:
  assumes st: "map_sum id snd (step s (fi, ti, r)) = Inr s'"
    and fi: "0 \<le> fi" "fi < int (length (beakers s))"
    and ti: "0 \<le> ti" "ti < int (length (beakers s))"
    and r: "0 \<le> r" "r < 100"
    and sep: "separate s"
    and src: "amount (beaker_at s (nat fi)) = 0 \<or> 2 powi (- 1022) \<le> amount (beaker_at s (nat fi))"
    and sub_exact: "exact (amount (beaker_at s (nat fi)) - amount_to_transfer s (nat fi) r)"
    and add_exact:
      "exact ((if ti = fi then amount (beaker_at s (nat fi)) - amount_to_transfer s (nat fi) r
               else amount (beaker_at s (nat ti))) + amount_to_transfer s (nat fi) r)"
  shows "total_amount s' = total_amount s"
proof -
  let ?i = "nat fi" and ?j = "nat ti"
  let ?x = "amount_to_transfer s ?i r"
  let ?src' = "snd (transferred s ?i r)" and ?p = "fst (fst (transferred s ?i r))"
  let ?ps = "(paints s)[?i := ?src']"
  have il: "?i < length (beakers s)" and jl: "?j < length (beakers s)" using fi ti by auto
  have ij: "(?j = ?i) = (ti = fi)" using fi ti by auto
  from st obtain obs reward d t where "step s (fi, ti, r) = Inr ((obs, reward, d, t), s')"
    by (cases "step s (fi, ti, r)") auto
  from this[unfolded step_Inr_iff] fi ti obtain mixed where
    mix: "mix_with ((store s)[beakers s ! ?i := ?src'] ! (beakers s ! ?j)) ?p = Inr mixed" and
    s': "s' = s\<lparr>store := (store s)[beakers s ! ?i := ?src'] @ [mixed],
               beakers := (beakers s)[?j := length (store s)],
               step_count := step_count s + 1\<rparr>"
    by (auto simp: py_index_valid)
  have ps': "paints s' = ?ps[?j := mixed]"
    unfolding s' by (rule paints_step[OF sep il jl])
  have pi: "paints s ! ?i = beaker_at s ?i" and pj: "paints s ! ?j = beaker_at s ?j"
    using il jl by (simp_all add: paints_def beaker_at_def)
  have d: "distinct (beakers s)" using sep by (simp add: separate_def)
  have dst: "(store s)[beakers s ! ?i := ?src'] ! (beakers s ! ?j) = ?ps ! ?j"
    using il jl separate_nth[OF sep il] separate_nth[OF sep jl] d
    by (auto simp: paints_def nth_list_update nth_eq_iff_index_eq)
  note tp = transfer_partial[OF r src]
  have p: "amount ?p = ?x" and s1: "amount ?src' = amount (beaker_at s ?i) - ?x"
    using split_partial[OF tp sub_exact] by (simp_all add: transferred_def)
  have dj: "amount (?ps ! ?j) =
      (if ti = fi then amount (beaker_at s ?i) - ?x else amount (beaker_at s ?j))"
    using il jl ij s1 pj by (auto simp: nth_list_update length_paints)
  have am: "amount mixed = amount (?ps ! ?j) + ?x"
    using mix_with_amount[OF mix] add_exact unfolding dst dj p by (simp add: exact_def)
  have "total_amount s' = sum_list (map amount ?ps) - amount (?ps ! ?j) + amount mixed"
    using ps' jl by (simp add: total_amount_def sum_list_amount_update length_paints)
  also have "\<dots> = sum_list (map amount ?ps) + ?x" using am by simp
  also have "\<dots> = total_amount s - amount (paints s ! ?i) + amount ?src' + ?x"
    using il by (simp add: total_amount_def sum_list_amount_update length_paints)
  finally show ?thesis using s1 pi by simp
qed

lemma env_separate: "separate env"
  by code_simp

lemma env_amounts:
  "beaker_at env 0 = \<lparr>color = (255, 0, 0), amount = 100\<rparr>"
  "beaker_at env (Suc 0) = \<lparr>color = (0, 255, 0), amount = 100\<rparr>"
  "amount_to_transfer env 0 50 = 50"
  "beakers env = [0, 1, 2]"
  by code_simp+

lemma env_exact: "exact 50" "exact 100" "exact 150"
  by code_simp+

theorem conservation_when_exact_witness:
  "map_sum id snd (step env (0, 1, 50)) =
     Inr (env\<lparr>store := [\<lparr>color = (255, 0, 0), amount = 50\<rparr>,
                          \<lparr>color = (0, 255, 0), amount = 100\<rparr>,
                          \<lparr>color = (0, 0, 255), amount = 100\<rparr>,
                          \<lparr>color = (85, 170, 0), amount = 150\<rparr>],
              beakers := [0, 3, 2], step_count := 1\<rparr>) \<and>
   separate env \<and> amount_to_transfer env 0 50 = 50 \<and> exact (100 - 50) \<and> exact (100 + 50) \<and>
   total_amount (env\<lparr>store := [\<lparr>color = (255, 0, 0), amount = 50\<rparr>,
                          \<lparr>color = (0, 255, 0), amount = 100\<rparr>,
                          \<lparr>color = (0, 0, 255), amount = 100\<rparr>,
                          \<lparr>color = (85, 170, 0), amount = 150\<rparr>],
              beakers := [0, 3, 2], step_count := 1\<rparr>) = 300 \<and>
   total_amount env = 300"
proof -
  have n: "(2::real) powi (- 1022) \<le> 100"
    by (simp add: power_int_def power_one_over[symmetric] power_le_one order_trans[of _ 1])
  have "total_amount (env\<lparr>store := [\<lparr>color = (255, 0, 0), amount = 50\<rparr>,
                          \<lparr>color = (0, 255, 0), amount = 100\<rparr>,
                          \<lparr>color = (0, 0, 255), amount = 100\<rparr>,
                          \<lparr>color = (85, 170, 0), amount = 150\<rparr>],
              beakers := [0, 3, 2], step_count := 1\<rparr>) = total_amount env"
    by (rule conservation_when_exact[OF env_step])
       (use env_separate env_exact n in \<open>simp_all add: env_amounts\<close>)
  moreover have "total_amount env = 300"
    by (simp add: total_amount_def paints_def env_def init_def)
  ultimately show ?thesis using env_step env_separate env_exact by (simp add: env_amounts)
qed

lemma tenth_is_rounded: "tenth = fl64 (1 / 10)"
  by code_simp

lemma tenth_index: "py_index (beakers tenth_env) 0 = Inr 0" "py_index (beakers tenth_env) 1 = Inr 1"
  by code_simp+

lemma tenth_transferred:
  "transferred tenth_env 0 1 =
     ((\<lparr>color = (0, 0, 0), amount = 1152921504606847 / 2 ^ 60\<rparr>,
       Some \<lparr>color = (0, 0, 0), amount = 3566850904877433 / 2 ^ 55\<rparr>),
      \<lparr>color = (0, 0, 0), amount = 3566850904877433 / 2 ^ 55\<rparr>)"
  by code_simp

lemma tenth_mixed:
  "mix_with ((store tenth_env)[beakers tenth_env ! 0 :=
                \<lparr>color = (0, 0, 0), amount = 3566850904877433 / 2 ^ 55\<rparr>] !
               (beakers tenth_env ! 1))
     (fst (\<lparr>color = (0, 0, 0), amount = 1152921504606847 / 2 ^ 60\<rparr>,
           Some \<lparr>color = (0, 0, 0), amount = 3566850904877433 / 2 ^ 55\<rparr>)) =
     Inr \<lparr>color = (0, 0, 0), amount = 7882425247805211 / 2 ^ 50\<rparr>"
  by code_simp

lemma tenth_step:
  "map_sum id snd (step tenth_env (0, 1, 1)) =
     Inr (tenth_env\<lparr>store := [\<lparr>color = (0, 0, 0), amount = 3566850904877433 / 2 ^ 55\<rparr>,
                                \<lparr>color = (0, 0, 0), amount = 7\<rparr>,
                                \<lparr>color = (0, 0, 0), amount = 7882425247805211 / 2 ^ 50\<rparr>],
                     beakers := [0, 2], step_count := 1\<rparr>)"
  using step_state[OF tenth_index tenth_transferred tenth_mixed]
  by (simp add: tenth_env_def init_def)

lemma tenth_sums:
  "fl64 (255804458834644185 / 2 ^ 55) = 255804458834644192 / 2 ^ 55"
  "fl64 (255804458834644173 / 2 ^ 55) = 255804458834644160 / 2 ^ 55"
  by code_simp+

text \<open>
  Claim C3 as stated fails where the doubles round. With \<^verbatim>\<open>0.1\<close> and \<open>7\<close> in the beakers,
  the action \<open>(0, 1, 1)\<close> leaves \<^verbatim>\<open>0.099\<close> and \<^verbatim>\<open>7.001\<close>: the sum moves from
  \<open>255804458834644173 / 2 ^ 55\<close> to \<open>255804458834644185 / 2 ^ 55\<close>, and the two sums round to
  different doubles as well (\<^verbatim>\<open>7.1\<close> before, \<^verbatim>\<open>7.1000000000000005\<close> after).
\<close>

theorem conservation_counterexample:
  "map_sum id (total_amount \<circ> snd) (step tenth_env (0, 1, 1)) = Inr (255804458834644185 / 2 ^ 55) \<and>
   total_amount tenth_env = 255804458834644173 / 2 ^ 55 \<and>
   fl64 (255804458834644185 / 2 ^ 55) = 255804458834644192 / 2 ^ 55 \<and>
   fl64 (255804458834644173 / 2 ^ 55) = 255804458834644160 / 2 ^ 55"
proof (intro conjI)
  show "map_sum id (total_amount \<circ> snd) (step tenth_env (0, 1, 1)) =
          Inr (255804458834644185 / 2 ^ 55)"
    unfolding map_sum_snd tenth_step by (simp add: total_amount_def paints_def)
  show "total_amount tenth_env = 255804458834644173 / 2 ^ 55"
    by (simp add: total_amount_def paints_def tenth_env_def init_def tenth_def)
qed (rule tenth_sums)+

text \<open>
  One paint in both slots: the split takes 50 from the object both slots hold, the mixed
  paint of 100 goes to slot 1, and slot 0 is left with 50.
\<close>

lemma shared_index: "py_index (beakers shared_env) 0 = Inr 0" "py_index (beakers shared_env) 1 = Inr 1"
  by code_simp+

lemma shared_transferred:
  "transferred shared_env 0 50 =
     ((\<lparr>color = (255, 0, 0), amount = 50\<rparr>, Some \<lparr>color = (255, 0, 0), amount = 50\<rparr>),
      \<lparr>color = (255, 0, 0), amount = 50\<rparr>)"
  by code_simp

lemma shared_mixed:
  "mix_with ((store shared_env)[beakers shared_env ! 0 := \<lparr>color = (255, 0, 0), amount = 50\<rparr>] !
               (beakers shared_env ! 1))
     (fst (\<lparr>color = (255, 0, 0), amount = 50\<rparr>, Some \<lparr>color = (255, 0, 0), amount = 50\<rparr>)) =
     Inr \<lparr>color = (255, 0, 0), amount = 100\<rparr>"
  by code_simp

lemma shared_step_loses_paint:
  "map_sum id (paints \<circ> snd) (step shared_env (0, 1, 50)) =
     Inr [\<lparr>color = (255, 0, 0), amount = 50\<rparr>, \<lparr>color = (255, 0, 0), amount = 100\<rparr>]"
  "paints shared_env = [\<lparr>color = (255, 0, 0), amount = 100\<rparr>, \<lparr>color = (255, 0, 0), amount = 100\<rparr>]"
  "\<not> separate shared_env"
proof -
  have "map_sum id snd (step shared_env (0, 1, 50)) =
     Inr (shared_env\<lparr>store := [\<lparr>color = (255, 0, 0), amount = 50\<rparr>,
                                 \<lparr>color = (255, 0, 0), amount = 100\<rparr>],
                      beakers := [0, 1], step_count := 1\<rparr>)"
    using step_state[OF shared_index shared_transferred shared_mixed]
    by (simp add: shared_env_def init_def)
  then show "map_sum id (paints \<circ> snd) (step shared_env (0, 1, 50)) =
     Inr [\<lparr>color = (255, 0, 0), amount = 50\<rparr>, \<lparr>color = (255, 0, 0), amount = 100\<rparr>]"
    unfolding map_sum_snd by (simp add: paints_def)
  show "paints shared_env = [\<lparr>color = (255, 0, 0), amount = 100\<rparr>, \<lparr>color = (255, 0, 0), amount = 100\<rparr>]"
    by (simp add: paints_def shared_env_def init_def)
  show "\<not> separate shared_env"
    by (simp add: separate_def shared_env_def init_def)
qed

section \<open>A transfer from a beaker to itself\<close>

lemma py_int_of_int: "py_int (of_int k) = k"
  by (simp add: py_int_def)

lemma mix_channel_exact:
  assumes "exact (of_int k * a1)" "exact (of_int k * a2)"
    "exact (of_int k * a1 + of_int k * a2)"
    "exact ((of_int k * a1 + of_int k * a2) / (a1 + a2))" "a1 + a2 \<noteq> 0"
  shows "mix_channel k a1 k a2 (a1 + a2) = k"
proof -
  have "(of_int k * a1 + of_int k * a2) / (a1 + a2) = (of_int k :: real)"
    using assms(5) by (simp add: distrib_left[symmetric])
  then show ?thesis using assms(1-4)
    by (simp add: mix_channel_def exact_def py_int_of_int)
qed

lemma mix_with_same_color:
  assumes ex: "exact_mix p q" and c: "color q = color p" and m: "mix_with p q = Inr mixed"
  shows "mixed = \<lparr>color = color p, amount = amount p + amount q\<rparr>"
proof -
  obtain r g b where rgb: "color p = (r, g, b)" by (cases "color p") auto
  from ex have t: "fl64 (amount p + amount q) = amount p + amount q"
    by (simp add: exact_mix_def exact_def Let_def)
  from m have nz: "amount p + amount q \<noteq> 0"
    by (auto simp: mix_with_def mix_colors_def Let_def t split: sum.splits prod.splits if_splits)
  from ex rgb c have ch:
    "mix_channel (255 - r) (amount p) (255 - r) (amount q) (amount p + amount q) = 255 - r"
    "mix_channel (255 - g) (amount p) (255 - g) (amount q) (amount p + amount q) = 255 - g"
    "mix_channel (255 - b) (amount p) (255 - b) (amount q) (amount p + amount q) = 255 - b"
    using nz by (auto simp: exact_mix_def Let_def channels_def rgb_to_cmy_def intro!: mix_channel_exact)
  from m show ?thesis using rgb c t nz ch
    by (auto simp: mix_with_def mix_colors_def Let_def rgb_to_cmy_def cmy_to_rgb_def split: sum.splits if_splits)
qed

text \<open>
  Claim C10, amended. A step whose two indices are the same valid index, with a ratio from
  0 to 99, on a beaker whose amount is a positive normal double, leaves the colour and
  the amount of every beaker as they were and only moves the counter, provided every slot
  holds an object of its own and the step does not round: the beaker's amount less the
  amount to transfer is a double, and mixing what is left with the portion is exact.
\<close>

theorem self_transfer_when_exact:
  assumes st: "map_sum id snd (step s (i, i, r)) = Inr s'"
    and i: "0 \<le> i" "i < int (length (beakers s))"
    and r: "0 \<le> r" "r < 100"
    and sep: "separate s"
    and pos: "2 powi (- 1022) \<le> amount (beaker_at s (nat i))"
    and sub_exact: "exact (amount (beaker_at s (nat i)) - amount_to_transfer s (nat i) r)"
    and mix_exact:
      "exact_mix \<lparr>color = color (beaker_at s (nat i)),
                  amount = amount (beaker_at s (nat i)) - amount_to_transfer s (nat i) r\<rparr>
                 \<lparr>color = color (beaker_at s (nat i)), amount = amount_to_transfer s (nat i) r\<rparr>"
  shows "paints s' = paints s \<and> step_count s' = step_count s + 1 \<and>
         max_steps s' = max_steps s \<and> target_paint s' = target_paint s"
proof -
  let ?i = "nat i"
  let ?x = "amount_to_transfer s ?i r"
  let ?src' = "snd (transferred s ?i r)" and ?p = "fst (fst (transferred s ?i r))"
  have il: "?i < length (beakers s)" using i by auto
  from st obtain obs reward d t where "step s (i, i, r) = Inr ((obs, reward, d, t), s')"
    by (cases "step s (i, i, r)") auto
  from this[unfolded step_Inr_iff] i obtain mixed where
    mix: "mix_with ((store s)[beakers s ! ?i := ?src'] ! (beakers s ! ?i)) ?p = Inr mixed" and
    s': "s' = s\<lparr>store := (store s)[beakers s ! ?i := ?src'] @ [mixed],
               beakers := (beakers s)[?i := length (store s)],
               step_count := step_count s + 1\<rparr>"
    by (auto simp: py_index_valid)
  have ps': "paints s' = (paints s)[?i := ?src', ?i := mixed]"
    unfolding s' by (rule paints_step[OF sep il il])
  have pi: "paints s ! ?i = beaker_at s ?i" using il by (simp add: paints_def beaker_at_def)
  have "(store s)[beakers s ! ?i := ?src'] ! (beakers s ! ?i) = ?src'"
    using separate_nth[OF sep il] by simp
  with mix have mix': "mix_with ?src' ?p = Inr mixed" by simp
  note tp = transfer_partial[OF r disjI2[OF pos]]
  have p: "amount ?p = ?x" and s1: "amount ?src' = amount (beaker_at s ?i) - ?x"
    using split_partial[OF tp sub_exact] by (simp_all add: transferred_def)
  have cs: "color ?src' = color (beaker_at s ?i)" and cp: "color ?p = color (beaker_at s ?i)"
    by (simp_all add: transferred_def split_same_color)
  have e1: "?src' = \<lparr>color = color (beaker_at s ?i), amount = amount (beaker_at s ?i) - ?x\<rparr>"
    using cs s1 by simp
  have e2: "?p = \<lparr>color = color (beaker_at s ?i), amount = ?x\<rparr>"
    using cp p by simp
  have ex: "exact_mix ?src' ?p" using mix_exact unfolding e1[symmetric] e2[symmetric] .
  have "color ?p = color ?src'" using cs cp by simp
  from mix_with_same_color[OF ex this mix']
  have "mixed = \<lparr>color = color (beaker_at s ?i), amount = amount (beaker_at s ?i)\<rparr>"
    using cs s1 p by simp
  then have "mixed = paints s ! ?i" using pi by simp
  then have "paints s' = paints s" using ps' by simp
  then show ?thesis using s' by simp
qed

lemma env_self_mixed:
  "mix_with ((store env)[beakers env ! 0 := \<lparr>color = (255, 0, 0), amount = 50\<rparr>] !
               (beakers env ! 0))
     (fst (\<lparr>color = (255, 0, 0), amount = 50\<rparr>, Some \<lparr>color = (255, 0, 0), amount = 50\<rparr>)) =
     Inr \<lparr>color = (255, 0, 0), amount = 100\<rparr>"
  by code_simp

lemma env_self_step:
  "map_sum id snd (step env (0, 0, 50)) =
     Inr (env\<lparr>store := [\<lparr>color = (255, 0, 0), amount = 50\<rparr>,
                          \<lparr>color = (0, 255, 0), amount = 100\<rparr>,
                          \<lparr>color = (0, 0, 255), amount = 100\<rparr>,
                          \<lparr>color = (255, 0, 0), amount = 100\<rparr>],
              beakers := [3, 1, 2], step_count := 1\<rparr>)"
  using step_state[OF env_index(1) env_index(1) env_transferred env_self_mixed]
  by (simp add: env_def init_def)

lemma env_exact_mix:
  "exact_mix \<lparr>color = (255, 0, 0), amount = 50\<rparr> \<lparr>color = (255, 0, 0), amount = 50\<rparr>"
  by code_simp

theorem self_transfer_when_exact_witness:
  "map_sum id snd (step env (0, 0, 50)) =
     Inr (env\<lparr>store := [\<lparr>color = (255, 0, 0), amount = 50\<rparr>,
                          \<lparr>color = (0, 255, 0), amount = 100\<rparr>,
                          \<lparr>color = (0, 0, 255), amount = 100\<rparr>,
                          \<lparr>color = (255, 0, 0), amount = 100\<rparr>],
              beakers := [3, 1, 2], step_count := 1\<rparr>) \<and>
   separate env \<and> amount_to_transfer env 0 50 = 50 \<and> exact (100 - 50) \<and>
   exact_mix \<lparr>color = (255, 0, 0), amount = 100 - 50\<rparr> \<lparr>color = (255, 0, 0), amount = 50\<rparr> \<and>
   paints (env\<lparr>store := [\<lparr>color = (255, 0, 0), amount = 50\<rparr>,
                          \<lparr>color = (0, 255, 0), amount = 100\<rparr>,
                          \<lparr>color = (0, 0, 255), amount = 100\<rparr>,
                          \<lparr>color = (255, 0, 0), amount = 100\<rparr>],
              beakers := [3, 1, 2], step_count := 1\<rparr>) = paints env"
proof -
  have n: "(2::real) powi (- 1022) \<le> 100"
    by (simp add: power_int_def power_one_over[symmetric] power_le_one order_trans[of _ 1])
  have "paints (env\<lparr>store := [\<lparr>color = (255, 0, 0), amount = 50\<rparr>,
                          \<lparr>color = (0, 255, 0), amount = 100\<rparr>,
                          \<lparr>color = (0, 0, 255), amount = 100\<rparr>,
                          \<lparr>color = (255, 0, 0), amount = 100\<rparr>],
              beakers := [3, 1, 2], step_count := 1\<rparr>) = paints env \<and>
        step_count (env\<lparr>store := [\<lparr>color = (255, 0, 0), amount = 50\<rparr>,
                          \<lparr>color = (0, 255, 0), amount = 100\<rparr>,
                          \<lparr>color = (0, 0, 255), amount = 100\<rparr>,
                          \<lparr>color = (255, 0, 0), amount = 100\<rparr>],
              beakers := [3, 1, 2], step_count := 1\<rparr>) = step_count env + 1 \<and>
        max_steps (env\<lparr>store := [\<lparr>color = (255, 0, 0), amount = 50\<rparr>,
                          \<lparr>color = (0, 255, 0), amount = 100\<rparr>,
                          \<lparr>color = (0, 0, 255), amount = 100\<rparr>,
                          \<lparr>color = (255, 0, 0), amount = 100\<rparr>],
              beakers := [3, 1, 2], step_count := 1\<rparr>) = max_steps env \<and>
        target_paint (env\<lparr>store := [\<lparr>color = (255, 0, 0), amount = 50\<rparr>,
                          \<lparr>color = (0, 255, 0), amount = 100\<rparr>,
                          \<lparr>color = (0, 0, 255), amount = 100\<rparr>,
                          \<lparr>color = (255, 0, 0), amount = 100\<rparr>],
              beakers := [3, 1, 2], step_count := 1\<rparr>) = target_paint env"
    by (rule self_transfer_when_exact[OF env_self_step])
       (use env_separate env_exact env_exact_mix n in \<open>simp_all add: env_amounts\<close>)
  then show ?thesis using env_self_step env_separate env_exact env_exact_mix
    by (simp add: env_amounts)
qed

text \<open>
  Claim C10 as stated fails where the doubles round. A beaker of colour \<open>(252, 0, 0)\<close> and
  amount \<open>33\<close> that transfers 4 hundredths to itself ends with colour \<open>(253, 0, 0)\<close>: the
  cyan channel \<open>3\<close> comes back as \<^verbatim>\<open>2.9999999999999996\<close>, which \<^verbatim>\<open>int\<close> cuts to \<open>2\<close>.
\<close>

lemma pale_index: "py_index (beakers pale_env) 0 = Inr 0"
  by code_simp

lemma pale_transferred:
  "transferred pale_env 0 4 =
     ((\<lparr>color = (252, 0, 0), amount = 5944751508129055 / 2 ^ 52\<rparr>,
       Some \<lparr>color = (252, 0, 0), amount = 4458563631096791 / 2 ^ 47\<rparr>),
      \<lparr>color = (252, 0, 0), amount = 4458563631096791 / 2 ^ 47\<rparr>)"
  by code_simp

lemma pale_mixed:
  "mix_with ((store pale_env)[beakers pale_env ! 0 :=
                \<lparr>color = (252, 0, 0), amount = 4458563631096791 / 2 ^ 47\<rparr>] !
               (beakers pale_env ! 0))
     (fst (\<lparr>color = (252, 0, 0), amount = 5944751508129055 / 2 ^ 52\<rparr>,
           Some \<lparr>color = (252, 0, 0), amount = 4458563631096791 / 2 ^ 47\<rparr>)) =
     Inr \<lparr>color = (253, 0, 0), amount = 33\<rparr>"
  by code_simp

lemma pale_step:
  "map_sum id snd (step pale_env (0, 0, 4)) =
     Inr (pale_env\<lparr>store := [\<lparr>color = (252, 0, 0), amount = 4458563631096791 / 2 ^ 47\<rparr>,
                               \<lparr>color = (253, 0, 0), amount = 33\<rparr>],
                    beakers := [1], step_count := 1\<rparr>)"
  using step_state[OF pale_index pale_index pale_transferred pale_mixed]
  by (simp add: pale_env_def init_def)

theorem self_transfer_counterexample:
  "map_sum id (paints \<circ> snd) (step pale_env (0, 0, 4)) =
     Inr [\<lparr>color = (253, 0, 0), amount = 33\<rparr>] \<and>
   paints pale_env = [\<lparr>color = (252, 0, 0), amount = 33\<rparr>]"
proof
  show "map_sum id (paints \<circ> snd) (step pale_env (0, 0, 4)) =
     Inr [\<lparr>color = (253, 0, 0), amount = 33\<rparr>]"
    unfolding map_sum_snd pale_step by (simp add: paints_def)
  show "paints pale_env = [\<lparr>color = (252, 0, 0), amount = 33\<rparr>]"
    by (simp add: pale_env_def init_def paints_def)
qed


end
